theory Spec2Isabelle
  imports Complex_Main
begin

section \<open>Values, exceptions and outbound events\<close>

text \<open>
  JSON values as Python holds them after \<^verbatim>\<open>json()\<close> or \<^verbatim>\<open>.dict()\<close>.
  A dictionary is the list of its items, in insertion order and with distinct keys.
  Numbers are Python's unbounded integers; no property below depends on a fractional number.
\<close>

datatype json =
    JNull
  | JBool bool
  | JNum int
  | JStr string
  | JArr "json list"
  | JObj "(string \<times> json) list"

text \<open>Python truthiness, as used by \<^verbatim>\<open>if not x\<close>.\<close>

fun truthy :: "json \<Rightarrow> bool" where
  "truthy JNull = False"
| "truthy (JBool b) = b"
| "truthy (JNum n) = (n \<noteq> 0)"
| "truthy (JStr s) = (s \<noteq> [])"
| "truthy (JArr xs) = (xs \<noteq> [])"
| "truthy (JObj kvs) = (kvs \<noteq> [])"

text \<open>
  Exceptions, by the class that the \<^verbatim>\<open>except\<close> clauses of the code tell apart
  (a subclass counts as its handled base class). The string is \<^verbatim>\<open>str(e)\<close>;
  \<^verbatim>\<open>HTTPException\<close> carries \<^verbatim>\<open>status_code\<close> and \<^verbatim>\<open>detail\<close>.
\<close>

datatype exn =
    KeyError string
  | ValueError string
  | TypeError string
  | HTTPException int string
  | OtherException string

text \<open>
  What leaves the process: a POST to a URL with a JSON body, by the library that sends it
  (\<open>HttpxPostBearer\<close>: with the bearer token of its \<^verbatim>\<open>Authorization\<close> header).
  \<open>FlyhubFetch\<close> is the awaited call of the FlyHub client of
  \<^verbatim>\<open>clients/flyhub_client.py\<close>, whose body is not part of the sources at hand.
\<close>

datatype event =
    HttpxPost string json
  | RequestsPost string json
  | CurlPost string json
  | HttpxPostBearer string json json
  | FlyhubFetch json int int

section \<open>Calling a Python function with keyword arguments\<close>

text \<open>
  \<open>bind_kwargs f names npos kws\<close> is the \<^verbatim>\<open>TypeError\<close> that Python raises at the
  call expression \<^verbatim>\<open>f(a1, ..., a_npos, k1=..., k2=...)\<close> of a function with the
  parameters \<open>names\<close> while it binds the keywords, in their order: a keyword that names
  no parameter, or one that names a parameter already filled by position. It is raised
  before the body runs (for an \<^verbatim>\<open>async def\<close>: before a coroutine object exists).
  \<open>None\<close>: every keyword binds.
\<close>

fun bind_kwargs :: "string \<Rightarrow> string list \<Rightarrow> nat \<Rightarrow> string list \<Rightarrow> exn option" where
  "bind_kwargs f names npos [] = None"
| "bind_kwargs f names npos (k # ks) =
     (if k \<notin> set names
      then Some (TypeError (f @ ''() got an unexpected keyword argument '' @ [CHR 0x27] @ k @ [CHR 0x27]))
      else if k \<in> set (take npos names)
      then Some (TypeError (f @ ''() got multiple values for argument '' @ [CHR 0x27] @ k @ [CHR 0x27]))
      else bind_kwargs f names npos ks)"

section \<open>The environment of a request\<close>

text \<open>Outcome of \<^verbatim>\<open>httpx.AsyncClient().post\<close>: an exception of class
  \<^verbatim>\<open>httpx.RequestError\<close>, any other exception, or a response with its status code,
  its text and the outcome of \<^verbatim>\<open>response.json()\<close> (\<open>Inl\<close>: the text of the decoding
  error, a \<^verbatim>\<open>ValueError\<close>).\<close>

datatype httpx_result =
    HttpxRequestError string
  | HttpxOtherError string
  | HttpxResponse int string "string + json"

text \<open>Exceptions inside \<^verbatim>\<open>fallback_to_requests\<close>, by the class its handlers tell apart.\<close>

datatype req_exn =
    RequestException string
  | JSONDecodeError string
  | OtherReqException string

text \<open>Outcome of \<^verbatim>\<open>requests.post\<close>: an exception, or a response with status code,
  text and the outcome of \<^verbatim>\<open>response.json()\<close>.\<close>

datatype requests_result =
    ReqRaised req_exn
  | ReqResponse int string "req_exn + json"

type_synonym raw_results = "(string \<times> json option) list"

text \<open>
  Everything \<^verbatim>\<open>combined_search\<close> and the BDFare client depend on that is outside
  the sources at hand: configuration, the network, and the imported adapters and FlyHub
  client (taken as parameters; an adapter may raise). Of the FlyHub client,
  \<open>flyhub_bind\<close> is the exception of the call expression
  \<^verbatim>\<open>fetch_flyhub_flights(flyhub_payload, page=page, size=size)\<close> itself
  (\<open>None\<close> when its signature takes these arguments) and \<open>flyhub_client\<close> the
  outcome of awaiting it.
\<close>

record env =
  BDFARE_BASE_URL :: string
  convert_to_bdfare_request :: "json \<Rightarrow> exn + json"
  httpx_post :: "string \<Rightarrow> json \<Rightarrow> httpx_result"
  requests_post :: "string \<Rightarrow> json \<Rightarrow> requests_result"
  convert_bdfare_to_flyhub :: "json \<Rightarrow> exn + json"
  flyhub_bind :: "exn option"
  flyhub_client :: "json \<Rightarrow> int \<Rightarrow> int \<Rightarrow> exn + json"
  format_flight_data_with_ids :: "raw_results \<Rightarrow> exn + (string \<rightharpoonup> json list)"

section \<open>The BDFare client (clients/bdfare\_client.py)\<close>

text \<open>\<^verbatim>\<open>async def fetch_bdfare_flights(payload: dict) -> dict\<close>: one parameter.\<close>

definition fetch_bdfare_flights_params :: "string list" where
  "fetch_bdfare_flights_params = [''payload'']"

definition fallback_to_requests :: "env \<Rightarrow> string \<Rightarrow> json \<Rightarrow> (exn + json) \<times> event list" where
  "fallback_to_requests E url p =
     (let handle = (\<lambda>e. case e of
            RequestException m \<Rightarrow>
              HTTPException 500 (''Network or request error during API call: '' @ m)
          | JSONDecodeError m \<Rightarrow> HTTPException 500 (''JSON decoding failed: '' @ m)
          | OtherReqException m \<Rightarrow> HTTPException 500 (''An unexpected error occurred: '' @ m))
      in (case requests_post E url p of
            ReqRaised e \<Rightarrow> Inl (handle e)
          | ReqResponse st txt js \<Rightarrow>
              if 400 \<le> st \<and> st < 600
              then Inl (HTTPException st (''HTTP request failed: '' @ txt))
              else (case js of Inl e \<Rightarrow> Inl (handle e) | Inr v \<Rightarrow> Inr v),
          [RequestsPost url p]))"

text \<open>
  The body of \<^verbatim>\<open>fetch_bdfare_flights\<close>. The adapter runs outside the \<^verbatim>\<open>try\<close>.
  Inside it, the \<^verbatim>\<open>HTTPException\<close> raised for a status other than 200 is caught by
  \<^verbatim>\<open>except Exception\<close> like every other failure, and the fallback runs.
\<close>

definition fetch_bdfare_flights :: "env \<Rightarrow> json \<Rightarrow> (exn + json) \<times> event list" where
  "fetch_bdfare_flights E payload =
     (case convert_to_bdfare_request E payload of
        Inl e \<Rightarrow> (Inl e, [])
      | Inr tp \<Rightarrow>
          (let url = BDFARE_BASE_URL E @ ''/AirShopping'';
               fallback = (case fallback_to_requests E url tp of
                             (r, tr) \<Rightarrow> (r, HttpxPost url tp # tr))
           in case httpx_post E url tp of
                HttpxResponse st txt js \<Rightarrow>
                  (if st = 200
                   then (case js of Inr v \<Rightarrow> (Inr v, [HttpxPost url tp]) | Inl m \<Rightarrow> fallback)
                   else fallback)
              | _ \<Rightarrow> fallback))"

section \<open>The combined search (services/combined\_service.py)\<close>

text \<open>
  The request body after \<^verbatim>\<open>payload.dict()\<close>; a key that is absent reads as \<open>None\<close>
  through \<^verbatim>\<open>.get\<close>. \<open>source\<close> and \<open>pointOfSale\<close> are strings and \<open>request\<close>
  a JSON value.
\<close>

record payload =
  source :: "string option"
  pointOfSale :: "string option"
  request :: "json option"

record search_result =
  res_page :: int
  res_size :: int
  total_flights :: int
  flights :: "json list"

text \<open>Python's \<^verbatim>\<open>xs[start:end]\<close> for integers of any sign.\<close>

definition clamp_index :: "int \<Rightarrow> int \<Rightarrow> int" where
  "clamp_index n i = (if i < 0 then max 0 (n + i) else min i n)"

definition py_slice :: "'a list \<Rightarrow> int \<Rightarrow> int \<Rightarrow> 'a list" where
  "py_slice xs start end =
     (let n = int (length xs); s = clamp_index n start; e = clamp_index n end
      in if s < e then take (nat (e - s)) (drop (nat s) xs) else [])"

text \<open>
  The two call expressions of the service. Each passes one argument by position and
  \<^verbatim>\<open>page\<close> and \<^verbatim>\<open>size\<close> by keyword. For the BDFare client the position fills
  its one parameter, so the keywords are all that can fail to bind.
\<close>

definition call_bdfare :: "exn option" where
  "call_bdfare = bind_kwargs ''fetch_bdfare_flights'' fetch_bdfare_flights_params 1 [''page'', ''size'']"

definition call_flyhub :: "env \<Rightarrow> exn option" where
  "call_flyhub E = flyhub_bind E"

text \<open>After \<^verbatim>\<open>gather(..., return_exceptions=True)\<close>: an exception becomes \<^verbatim>\<open>None\<close>.\<close>

definition exn_to_none :: "exn + json \<Rightarrow> json option" where
  "exn_to_none r = (case r of Inl e \<Rightarrow> None | Inr v \<Rightarrow> Some v)"

text \<open>
  Lines 44 to 103: the branch on \<open>source\<close>, for the validated values. The result is
  \<^verbatim>\<open>raw_results\<close> or the exception that leaves the \<^verbatim>\<open>try\<close> body, with the
  outbound events. In the branch for \<^verbatim>\<open>"all"\<close> both call expressions are evaluated
  before \<^verbatim>\<open>asyncio.gather\<close>; the events of the two gathered tasks are listed BDFare
  first.
\<close>

definition dispatch :: "env \<Rightarrow> string \<Rightarrow> string \<Rightarrow> json \<Rightarrow> int \<Rightarrow> int \<Rightarrow> (exn + raw_results) \<times> event list" where
  "dispatch E src point_of_sale request_data pg sz =
     (let enriched = JObj [(''pointOfSale'', JStr point_of_sale), (''request'', request_data)]
      in if src = ''bdfare'' then
           (case call_bdfare of
              Some e \<Rightarrow> (Inl e, [])
            | None \<Rightarrow>
                (case fetch_bdfare_flights E enriched of
                   (Inl e, tr) \<Rightarrow> (Inl e, tr)
                 | (Inr v, tr) \<Rightarrow> (Inr [(''bdfare'', Some v)], tr)))
         else if src = ''flyhub'' then
           (case convert_bdfare_to_flyhub E request_data of
              Inl e \<Rightarrow> (Inl e, [])
            | Inr fp \<Rightarrow>
                (case call_flyhub E of
                   Some e \<Rightarrow> (Inl e, [])
                 | None \<Rightarrow>
                     (case flyhub_client E fp pg sz of
                        Inl e \<Rightarrow> (Inl e, [FlyhubFetch fp pg sz])
                      | Inr v \<Rightarrow> (Inr [(''flyhub'', Some v)], [FlyhubFetch fp pg sz]))))
         else if src = ''all'' then
           (case convert_bdfare_to_flyhub E request_data of
              Inl e \<Rightarrow> (Inl e, [])
            | Inr fp \<Rightarrow>
                (case call_bdfare of
                   Some e \<Rightarrow> (Inl e, [])
                 | None \<Rightarrow>
                     (case call_flyhub E of
                        Some e \<Rightarrow> (Inl e, [])
                      | None \<Rightarrow>
                          (case fetch_bdfare_flights E enriched of
                             (b, tr) \<Rightarrow>
                               (Inr [(''bdfare'', exn_to_none b),
                                     (''flyhub'', exn_to_none (flyhub_client E fp pg sz))],
                                tr @ [FlyhubFetch fp pg sz])))))
         else (Inl (ValueError (''Invalid source specified: '' @ src)), []))"

text \<open>
  Lines 28 to 42: the three keys are read with \<^verbatim>\<open>.get\<close> and tested with
  \<^verbatim>\<open>if not ...\<close>, in this order; an absent key and an empty value fail alike.
\<close>

definition collect_raw_results :: "env \<Rightarrow> payload \<Rightarrow> int \<Rightarrow> int \<Rightarrow> (exn + raw_results) \<times> event list" where
  "collect_raw_results E p pg sz =
     (let no_source = (Inl (ValueError ''The 'source' key is missing in the payload.''), []);
          no_point_of_sale = (Inl (ValueError ''The 'pointOfSale' key is missing in the payload.''), []);
          no_request = (Inl (ValueError ''The 'request' key is missing in the payload.''), [])
      in case source p of
           None \<Rightarrow> no_source
         | Some src \<Rightarrow>
             if src = [] then no_source
             else (case pointOfSale p of
                     None \<Rightarrow> no_point_of_sale
                   | Some point_of_sale \<Rightarrow>
                       if point_of_sale = [] then no_point_of_sale
                       else (case request p of
                               None \<Rightarrow> no_request
                             | Some request_data \<Rightarrow>
                                 if \<not> truthy request_data then no_request
                                 else dispatch E src point_of_sale request_data pg sz)))"

text \<open>Lines 106 to 120: formatting by the adapter, then pagination.\<close>

definition paginate :: "(string \<rightharpoonup> json list) \<Rightarrow> int \<Rightarrow> int \<Rightarrow> search_result" where
  "paginate formatted_results pg sz =
     (let fl = (case formatted_results ''Flights'' of None \<Rightarrow> [] | Some xs \<Rightarrow> xs);
          start = (pg - 1) * sz;
          end = start + sz
      in \<lparr> res_page = pg, res_size = sz, total_flights = int (length fl),
           flights = py_slice fl start end \<rparr>)"

text \<open>The \<^verbatim>\<open>except\<close> clauses of lines 122 to 138, in their order.\<close>

fun to_http_exception :: "exn \<Rightarrow> exn" where
  "to_http_exception (KeyError m) = HTTPException 422 (''Missing key in payload: '' @ m)"
| "to_http_exception (ValueError m) = HTTPException 422 (''Validation Error: '' @ m)"
| "to_http_exception (HTTPException st d) = HTTPException st d"
| "to_http_exception (TypeError m) = HTTPException 500 (''An unexpected error occurred: '' @ m)"
| "to_http_exception (OtherException m) = HTTPException 500 (''An unexpected error occurred: '' @ m)"

definition combined_search :: "env \<Rightarrow> payload \<Rightarrow> int \<Rightarrow> int \<Rightarrow> (exn + search_result) \<times> event list" where
  "combined_search E p pg sz =
     (case collect_raw_results E p pg sz of
        (Inl e, tr) \<Rightarrow> (Inl (to_http_exception e), tr)
      | (Inr raw, tr) \<Rightarrow>
          (case format_flight_data_with_ids E raw of
             Inl e \<Rightarrow> (Inl (to_http_exception e), tr)
           | Inr formatted_results \<Rightarrow> (Inr (paginate formatted_results pg sz), tr)))"

section \<open>The BDFare search route (routes/bdfare/search.py)\<close>

text \<open>
  Outcome of \<^verbatim>\<open>subprocess.run\<close> on the curl command: an exception, or the completed
  process with its return code, standard output, standard error and the outcome of
  \<^verbatim>\<open>json.loads\<close> on the output (\<open>None\<close>: not JSON).
\<close>

datatype curl_result =
    CurlRaised string
  | CurlCompleted int string string "json option"

text \<open>
  What the route depends on: the two module globals read from the process environment
  (\<open>None\<close> when unset), the network, and the texts that the libraries give their own
  exceptions (\<^verbatim>\<open>str\<close> of an \<^verbatim>\<open>HTTPException\<close>, and of the validation error of
  the response model for data that are not a dictionary).
\<close>

record route_env =
  ROUTE_BDFARE_BASE_URL :: "string option"
  ROUTE_BDFARE_API_KEY :: "string option"
  route_httpx_post :: "string \<Rightarrow> json \<Rightarrow> httpx_result"
  subprocess_run_curl :: "string \<Rightarrow> json \<Rightarrow> curl_result"
  str_http_exception :: "int \<Rightarrow> string \<Rightarrow> string"
  str_validation_error :: "json \<Rightarrow> string"

text \<open>\<^verbatim>\<open>AirShoppingResponse(success=True, data=...)\<close>, whose \<^verbatim>\<open>data\<close> is a dictionary.\<close>

definition AirShoppingResponse :: "route_env \<Rightarrow> json \<Rightarrow> exn + json" where
  "AirShoppingResponse R data =
     (case data of
        JObj kvs \<Rightarrow> Inr (JObj [(''success'', JBool True), (''data'', data)])
      | _ \<Rightarrow> Inl (ValueError (str_validation_error R data)))"

text \<open>
  The curl fallback of lines 149 to 190. The \<^verbatim>\<open>HTTPException\<close> raised for a return code
  other than 0 is itself caught by the \<^verbatim>\<open>except Exception\<close> of line 185.
\<close>

definition curl_fallback :: "route_env \<Rightarrow> string \<Rightarrow> json \<Rightarrow> exn + json" where
  "curl_fallback R url payload =
     (let unexpected = (\<lambda>m. Inl (HTTPException 500 (''Unexpected error occurred using curl: '' @ m)))
      in case subprocess_run_curl R url payload of
           CurlRaised m \<Rightarrow> unexpected m
         | CurlCompleted rc out err js \<Rightarrow>
             if rc \<noteq> 0
             then unexpected (str_http_exception R 500 (''Curl command failed: '' @ err))
             else (case js of
                     None \<Rightarrow> Inl (HTTPException 500 (''Failed to decode JSON response: '' @ out))
                   | Some v \<Rightarrow>
                       (case AirShoppingResponse R v of
                          Inl e \<Rightarrow> unexpected (str_validation_error R v)
                        | Inr r \<Rightarrow> Inr r)))"

text \<open>
  \<^verbatim>\<open>search_flights\<close>, lines 110 to 190. Only \<^verbatim>\<open>httpx.RequestError\<close> leads to the
  fallback; the \<^verbatim>\<open>HTTPException\<close> for a status other than 200 and any other exception
  leave the function.
\<close>

definition search_flights :: "route_env \<Rightarrow> json \<Rightarrow> (exn + json) \<times> event list" where
  "search_flights R payload =
     (let no_url = (Inl (HTTPException 500 ''BDFare Base URL is not configured.''), []);
          no_key = (Inl (HTTPException 500 ''BDFare API key is not configured.''), [])
      in case ROUTE_BDFARE_BASE_URL R of
           None \<Rightarrow> no_url
         | Some base \<Rightarrow>
             if base = [] then no_url
             else (case ROUTE_BDFARE_API_KEY R of
                     None \<Rightarrow> no_key
                   | Some key \<Rightarrow>
                       if key = [] then no_key
                       else (let url = base @ ''/AirShopping''
                             in case route_httpx_post R url payload of
                                  HttpxResponse st txt js \<Rightarrow>
                                    (if st = 200
                                     then (case js of
                                             Inl m \<Rightarrow> Inl (ValueError m)
                                           | Inr v \<Rightarrow> AirShoppingResponse R v)
                                     else Inl (HTTPException st (''BDFare API error: '' @ txt)),
                                     [HttpxPost url payload])
                                | HttpxOtherError m \<Rightarrow> (Inl (OtherException m), [HttpxPost url payload])
                                | HttpxRequestError m \<Rightarrow>
                                    (curl_fallback R url payload,
                                     [HttpxPost url payload, CurlPost url payload]))))"

text \<open>Whether the first attempt, through httpx, gave the client its answer.\<close>

definition primary_succeeded :: "httpx_result \<Rightarrow> bool" where
  "primary_succeeded r = (case r of HttpxResponse st txt (Inr v) \<Rightarrow> st = 200 | _ \<Rightarrow> False)"

definition is_request_error :: "httpx_result \<Rightarrow> bool" where
  "is_request_error r = (case r of HttpxRequestError m \<Rightarrow> True | _ \<Rightarrow> False)"

text \<open>A route environment with the configuration present.\<close>

definition example_route_env :: "httpx_result \<Rightarrow> route_env" where
  "example_route_env answer =
     \<lparr> ROUTE_BDFARE_BASE_URL = Some ''https://bdfare.test'',
       ROUTE_BDFARE_API_KEY = Some ''key'',
       route_httpx_post = (\<lambda>url body. answer),
       subprocess_run_curl = (\<lambda>url body. CurlCompleted 0 ''{}'' [] (Some (JObj []))),
       str_http_exception = (\<lambda>st d. d),
       str_validation_error = (\<lambda>v. ''value is not a valid dict'') \<rparr>"

section \<open>The FlyHub credential cache (routes/combined/combined\_search.py)\<close>

text \<open>
  The module global \<^verbatim>\<open>cached_token\<close>, initially \<^verbatim>\<open>{"token": None, "expires_at": 0}\<close>.
  The token is whatever JSON value the supplier sent as \<^verbatim>\<open>TokenId\<close>. Times are the
  seconds of \<^verbatim>\<open>loop.time()\<close>, floats, taken as the real numbers they denote:
  comparing them is comparing these numbers. Their sum is not: Python rounds it to a
  float, so the addition of floats is a function of its own, \<open>float_add\<close> below.
\<close>

record token_cache =
  token :: json
  expires_at :: real

definition initial_cache :: token_cache where
  "initial_cache = \<lparr> token = JNull, expires_at = 0 \<rparr>"

text \<open>
  The module globals read from the process environment (\<open>None\<close> or \<open>JNull\<close> when
  unset), the answers of the network to the two POST requests (the second is sent with
  the bearer token given), and Python's \<^verbatim>\<open>+\<close> on floats, which rounds the sum.
\<close>

record flyhub_env =
  FLYHUB_BASE_URL :: "string option"
  FLYHUB_USERNAME :: json
  FLYHUB_API_KEY :: json
  authenticate_post :: "string \<Rightarrow> json \<Rightarrow> httpx_result"
  search_post :: "string \<Rightarrow> json \<Rightarrow> json \<Rightarrow> httpx_result"
  float_add :: "real \<Rightarrow> real \<Rightarrow> real"

text \<open>An optional string inside an f-string.\<close>

definition fstr :: "string option \<Rightarrow> string" where
  "fstr s = (case s of None \<Rightarrow> ''None'' | Some t \<Rightarrow> t)"

definition quoted :: "string \<Rightarrow> string" where
  "quoted s = [CHR 0x27] @ s @ [CHR 0x27]"

text \<open>Python's \<^verbatim>\<open>v[k]\<close> for a string key (messages of CPython 3.11).\<close>

fun py_getitem :: "json \<Rightarrow> string \<Rightarrow> exn + json" where
  "py_getitem (JObj kvs) k =
     (case map_of kvs k of None \<Rightarrow> Inl (KeyError (quoted k)) | Some v \<Rightarrow> Inr v)"
| "py_getitem (JArr xs) k = Inl (TypeError ''list indices must be integers or slices, not str'')"
| "py_getitem (JStr s) k = Inl (TypeError (''string indices must be integers, not '' @ quoted ''str''))"
| "py_getitem JNull k = Inl (TypeError (quoted ''NoneType'' @ '' object is not subscriptable''))"
| "py_getitem (JBool b) k = Inl (TypeError (quoted ''bool'' @ '' object is not subscriptable''))"
| "py_getitem (JNum n) k = Inl (TypeError (quoted ''int'' @ '' object is not subscriptable''))"

text \<open>The test of line 37: the token is falsy, or the expiry is not after the current time.\<close>

definition needs_refresh :: "token_cache \<Rightarrow> real \<Rightarrow> bool" where
  "needs_refresh c now = (\<not> truthy (token c) \<or> expires_at c \<le> now)"

text \<open>
  Lines 64 to 69 of \<^verbatim>\<open>authenticate_flyhub\<close>, given the addition of floats, the
  outcome of its POST and the time read at line 67. An exception of the POST leaves the
  function as it is.
\<close>

definition authenticate_receive ::
  "(real \<Rightarrow> real \<Rightarrow> real) \<Rightarrow> httpx_result \<Rightarrow> real \<Rightarrow> token_cache \<Rightarrow> (exn + unit) \<times> token_cache" where
  "authenticate_receive fadd answer now c =
     (case answer of
        HttpxRequestError m \<Rightarrow> (Inl (OtherException m), c)
      | HttpxOtherError m \<Rightarrow> (Inl (OtherException m), c)
      | HttpxResponse st txt js \<Rightarrow>
          if st = 200
          then (case js of
                  Inl m \<Rightarrow> (Inl (ValueError m), c)
                | Inr token_data \<Rightarrow>
                    (case py_getitem token_data ''TokenId'' of
                       Inl e \<Rightarrow> (Inl e, c)
                     | Inr t \<Rightarrow> (Inr (), c \<lparr> token := t, expires_at := fadd now 3600 \<rparr>)))
          else (Inl (HTTPException st ''FlyHub Authentication Failed''), c))"

definition authenticate_request :: "flyhub_env \<Rightarrow> event" where
  "authenticate_request F =
     HttpxPost (fstr (FLYHUB_BASE_URL F) @ ''Authenticate'')
       (JObj [(''username'', FLYHUB_USERNAME F), (''apikey'', FLYHUB_API_KEY F)])"

definition authenticate_flyhub :: "flyhub_env \<Rightarrow> real \<Rightarrow> token_cache \<Rightarrow> (exn + unit) \<times> token_cache \<times> event list" where
  "authenticate_flyhub F now c =
     (let url = fstr (FLYHUB_BASE_URL F) @ ''Authenticate'';
          body = JObj [(''username'', FLYHUB_USERNAME F), (''apikey'', FLYHUB_API_KEY F)]
      in case authenticate_receive (float_add F) (authenticate_post F url body) now c of
           (r, c') \<Rightarrow> (r, c', [authenticate_request F]))"

text \<open>Lines 40 to 52: the search itself, with the token that the cache holds.\<close>

definition search_request :: "flyhub_env \<Rightarrow> token_cache \<Rightarrow> json \<Rightarrow> event" where
  "search_request F c payload = HttpxPostBearer (fstr (FLYHUB_BASE_URL F) @ ''AirSearch'') (token c) payload"

definition flyhub_search :: "flyhub_env \<Rightarrow> token_cache \<Rightarrow> json \<Rightarrow> exn + json" where
  "flyhub_search F c payload =
     (case search_post F (fstr (FLYHUB_BASE_URL F) @ ''AirSearch'') (token c) payload of
        HttpxRequestError m \<Rightarrow> Inl (OtherException m)
      | HttpxOtherError m \<Rightarrow> Inl (OtherException m)
      | HttpxResponse st txt js \<Rightarrow>
          if st = 200
          then (case js of Inl m \<Rightarrow> Inl (ValueError m) | Inr v \<Rightarrow> Inr v)
          else Inl (HTTPException st txt))"

text \<open>
  \<^verbatim>\<open>fetch_flyhub_flights\<close> of the route module: \<open>now\<close> is the time read at line 37 and
  \<open>now'\<close> the one read at line 67. The result comes with the cache afterwards and
  the requests sent, in their order.
\<close>

definition fetch_flyhub_flights ::
  "flyhub_env \<Rightarrow> real \<Rightarrow> real \<Rightarrow> token_cache \<Rightarrow> json \<Rightarrow>
     (exn + json) \<times> token_cache \<times> event list" where
  "fetch_flyhub_flights F now now' c payload =
     (if needs_refresh c now
      then (case authenticate_flyhub F now' c of
              (Inl e, c', evs) \<Rightarrow> (Inl e, c', evs)
            | (Inr u, c', evs) \<Rightarrow>
                (flyhub_search F c' payload, c', evs @ [search_request F c' payload]))
      else (flyhub_search F c payload, c, [search_request F c payload]))"

text \<open>
  The sum of floats for the examples below: their operands are whole numbers of seconds,
  far below \<open>2 ^ 53\<close>, whose sum is a float itself, so that nothing is rounded.
\<close>

definition example_float_add :: "real \<Rightarrow> real \<Rightarrow> real" where
  "example_float_add a b = a + b"

text \<open>A FlyHub that issues the token \<^verbatim>\<open>"tok-1"\<close> and answers every search with no offers.\<close>

definition example_flyhub_env :: flyhub_env where
  "example_flyhub_env =
     \<lparr> FLYHUB_BASE_URL = Some ''https://flyhub.test/'',
       FLYHUB_USERNAME = JStr ''user'',
       FLYHUB_API_KEY = JStr ''secret'',
       authenticate_post = (\<lambda>url body. HttpxResponse 200 ''{}'' (Inr (JObj [(''TokenId'', JStr ''tok-1'')]))),
       search_post = (\<lambda>url tok body. HttpxResponse 200 ''[]'' (Inr (JArr []))),
       float_add = example_float_add \<rparr>"

section \<open>Concurrent callers of the FlyHub search\<close>

text \<open>
  Several calls of \<^verbatim>\<open>fetch_flyhub_flights\<close> running as tasks of one event loop. A task
  runs until it awaits the network, so a call consists of the segments between its POST
  requests; the module global is the only thing the calls share, and the code takes no
  lock around it. A caller is at its start, waits for the answer to its authenticate
  request (the \<open>n\<close>-th one sent), waits for the answer to its search (sent with the token
  given), is done (having used the token given), or has failed in authenticating.
\<close>

datatype caller =
    Start
  | AwaitAuth nat
  | AwaitSearch json
  | Done json
  | Failed exn








section \<open>Vocabulary of the properties\<close>

text \<open>
  The keys that the validation of lines 36 to 42 finds missing, in the order of its tests:
  absent (\<open>None\<close>) or empty, which \<^verbatim>\<open>if not ...\<close> does not tell apart.
\<close>

definition missing_keys :: "payload \<Rightarrow> string list" where
  "missing_keys p =
     (if source p = None \<or> source p = Some [] then [''source''] else []) @
     (if pointOfSale p = None \<or> pointOfSale p = Some [] then [''pointOfSale''] else []) @
     (case request p of None \<Rightarrow> [''request''] | Some j \<Rightarrow> if truthy j then [] else [''request''])"

definition missing_key_detail :: "string \<Rightarrow> string" where
  "missing_key_detail k =
     ''Validation Error: The '' @ [CHR 0x27] @ k @ [CHR 0x27] @ '' key is missing in the payload.''"

text \<open>The detail of the HTTP 500 answer to the \<^verbatim>\<open>TypeError\<close> of the BDFare call.\<close>

definition bdfare_type_error :: string where
  "bdfare_type_error =
     ''fetch_bdfare_flights() got an unexpected keyword argument '' @ [CHR 0x27] @ ''page'' @ [CHR 0x27]"

text \<open>\<open>mentions t s\<close>: the text \<open>t\<close> occurs in \<open>s\<close>.\<close>

fun starts_with :: "string \<Rightarrow> string \<Rightarrow> bool" where
  "starts_with [] s = True"
| "starts_with (c # t) [] = False"
| "starts_with (c # t) (d # s) = (c = d \<and> starts_with t s)"

fun mentions :: "string \<Rightarrow> string \<Rightarrow> bool" where
  "mentions t [] = (t = [])"
| "mentions t (c # s) = (starts_with t (c # s) \<or> mentions t s)"

subsection \<open>A concrete environment and concrete requests\<close>

text \<open>
  Sample data for evaluating the model: a FlyHub client that takes \<^verbatim>\<open>page\<close> and
  \<^verbatim>\<open>size\<close> and answers five offers, adapters that pass their input on, and a
  formatter that lists the offers of the suppliers that answered, in dispatch order.
\<close>

definition example_offers :: "json list" where
  "example_offers = [JStr ''fh-1'', JStr ''fh-2'', JStr ''fh-3'', JStr ''fh-4'', JStr ''fh-5'']"

definition offers_of :: "string \<times> json option \<Rightarrow> json list" where
  "offers_of kv = (case snd kv of Some (JArr xs) \<Rightarrow> xs | _ \<Rightarrow> [])"

definition example_flights :: "raw_results \<Rightarrow> json list" where
  "example_flights raw = concat (map offers_of raw)"

definition example_env :: env where
  "example_env =
     \<lparr> BDFARE_BASE_URL = ''https://bdfare.test'',
       convert_to_bdfare_request = Inr,
       httpx_post = (\<lambda>url body. HttpxResponse 200 ''[]'' (Inr (JArr []))),
       requests_post = (\<lambda>url body. ReqResponse 200 ''[]'' (Inr (JArr []))),
       convert_bdfare_to_flyhub = Inr,
       flyhub_bind = None,
       flyhub_client = (\<lambda>fp pg sz. Inr (JArr example_offers)),
       format_flight_data_with_ids = (\<lambda>raw. Inr [''Flights'' \<mapsto> example_flights raw]) \<rparr>"

definition example_request :: json where
  "example_request = JObj [(''originDest'', JArr []), (''pax'', JArr [])]"

definition example_payload :: "string \<Rightarrow> payload" where
  "example_payload src =
     \<lparr> source = Some src, pointOfSale = Some ''BD'', request = Some example_request \<rparr>"

text \<open>The same environment with a FlyHub client that fails with a given exception.\<close>

definition failing_flyhub_env :: "exn \<Rightarrow> env" where
  "failing_flyhub_env e = example_env \<lparr> flyhub_client := (\<lambda>fp pg sz. Inl e) \<rparr>"

text \<open>The same environment with BDFare unreachable by either HTTP library.\<close>

definition bdfare_down_env :: env where
  "bdfare_down_env =
     example_env \<lparr> httpx_post := (\<lambda>url body. HttpxRequestError ''connection refused''),
                   requests_post := (\<lambda>url body. ReqRaised (RequestException ''connection refused'')) \<rparr>"

text \<open>
  The specification's answer when every targeted supplier failed, as its section 7 words
  it: \<^verbatim>\<open>AllSuppliersFailedError\<close>, surfaced as HTTP 502 or 500.
\<close>

definition spec_all_suppliers_failed :: "exn \<Rightarrow> bool" where
  "spec_all_suppliers_failed e =
     (case e of HTTPException st d \<Rightarrow> st = 502 \<or> st = 500 | _ \<Rightarrow> False)"

section \<open>Properties of the combined search\<close>

subsection \<open>The stages of the search, unfolded\<close>

lemma collect_raw_results_valid:
  assumes "source p = Some src" "src \<noteq> []" "pointOfSale p = Some pos" "pos \<noteq> []"
    "request p = Some rd" "truthy rd"
  shows "collect_raw_results E p pg sz = dispatch E src pos rd pg sz"
  using assms by (simp add: collect_raw_results_def)

lemma missing_keys_Nil:
  "missing_keys p = [] \<longleftrightarrow>
     (\<exists>src pos rd. source p = Some src \<and> src \<noteq> [] \<and> pointOfSale p = Some pos \<and> pos \<noteq> [] \<and>
        request p = Some rd \<and> truthy rd)"
  by (auto simp: missing_keys_def split: option.splits if_splits)

lemma call_bdfare_raises: "call_bdfare = Some (TypeError bdfare_type_error)"
  by (simp add: call_bdfare_def fetch_bdfare_flights_params_def bdfare_type_error_def)

lemma dispatch_bdfare:
  "dispatch E ''bdfare'' pos rd pg sz = (Inl (TypeError bdfare_type_error), [])"
  by (simp add: dispatch_def call_bdfare_raises)

lemma dispatch_all:
  "dispatch E ''all'' pos rd pg sz =
     (case convert_bdfare_to_flyhub E rd of
        Inl e \<Rightarrow> (Inl e, [])
      | Inr fp \<Rightarrow> (Inl (TypeError bdfare_type_error), []))"
  by (simp add: dispatch_def call_bdfare_raises split: sum.splits)

lemma dispatch_flyhub:
  "dispatch E ''flyhub'' pos rd pg sz =
     (case convert_bdfare_to_flyhub E rd of
        Inl e \<Rightarrow> (Inl e, [])
      | Inr fp \<Rightarrow>
          (case flyhub_bind E of
             Some e \<Rightarrow> (Inl e, [])
           | None \<Rightarrow>
               (case flyhub_client E fp pg sz of
                  Inl e \<Rightarrow> (Inl e, [FlyhubFetch fp pg sz])
                | Inr v \<Rightarrow> (Inr [(''flyhub'', Some v)], [FlyhubFetch fp pg sz]))))"
  unfolding dispatch_def call_flyhub_def by simp

lemma dispatch_invalid:
  "src \<noteq> ''bdfare'' \<Longrightarrow> src \<noteq> ''flyhub'' \<Longrightarrow> src \<noteq> ''all'' \<Longrightarrow>
   dispatch E src pos rd pg sz = (Inl (ValueError (''Invalid source specified: '' @ src)), [])"
  by (simp add: dispatch_def)

subsection \<open>Validation\<close>

text \<open>
  C6. A payload in which one of the keys \<open>source\<close>, \<open>pointOfSale\<close>, \<open>request\<close> is
  missing (absent or empty) is answered with HTTP status 422 and a detail that names the
  first such key, and nothing is dispatched to a supplier.
\<close>

theorem missing_key_rejected:
  assumes "missing_keys p = k # ks"
  shows "combined_search E p pg sz = (Inl (HTTPException 422 (missing_key_detail k)), [])"
proof (cases "source p = None \<or> source p = Some []")
  case True
  with assms have "k = ''source''" by (simp add: missing_keys_def)
  with True show ?thesis
    by (auto simp: missing_key_detail_def combined_search_def collect_raw_results_def)
next
  case s: False
  then obtain src where src: "source p = Some src" "src \<noteq> []" by auto
  show ?thesis
  proof (cases "pointOfSale p = None \<or> pointOfSale p = Some []")
    case True
    with assms s have "k = ''pointOfSale''" by (simp add: missing_keys_def)
    with True src show ?thesis
      by (auto simp: missing_key_detail_def combined_search_def collect_raw_results_def)
  next
    case ps: False
    then obtain pos where pos: "pointOfSale p = Some pos" "pos \<noteq> []" by auto
    from assms s ps have "k = ''request''"
      and "request p = None \<or> (\<exists>j. request p = Some j \<and> \<not> truthy j)"
      by (auto simp: missing_keys_def split: option.splits if_splits)
    with src pos show ?thesis
      by (auto simp: missing_key_detail_def combined_search_def collect_raw_results_def)
  qed
qed

theorem missing_key_rejected_witness:
  "missing_keys \<lparr> source = Some ''all'', pointOfSale = None, request = Some example_request \<rparr>
     = [''pointOfSale''] \<and>
   combined_search example_env
     \<lparr> source = Some ''all'', pointOfSale = None, request = Some example_request \<rparr> 1 50
     = (Inl (HTTPException 422 (missing_key_detail ''pointOfSale'')), [])"
proof -
  have m: "missing_keys \<lparr> source = Some ''all'', pointOfSale = None, request = Some example_request \<rparr>
            = ''pointOfSale'' # []"
    by (simp add: missing_keys_def example_request_def)
  from missing_key_rejected [OF m] m show ?thesis by simp
qed

subsection \<open>The call of the BDFare client\<close>

text \<open>
  C4. For a payload that passes the validation of its keys with \<open>source\<close>
  \<^verbatim>\<open>"bdfare"\<close> or \<^verbatim>\<open>"all"\<close>, the call expression of \<^verbatim>\<open>fetch_bdfare_flights\<close> with
  the keywords \<^verbatim>\<open>page\<close> and \<^verbatim>\<open>size\<close> raises \<^verbatim>\<open>TypeError\<close>, since the client takes
  \<^verbatim>\<open>payload\<close> only. Nothing is dispatched, no result is ever returned, and the answer
  is HTTP 500 with the text of the \<^verbatim>\<open>TypeError\<close> (for \<^verbatim>\<open>"all"\<close>: once the FlyHub
  request adapter of line 71, which runs before the call, has returned).
\<close>

theorem bdfare_call_raises_type_error:
  assumes "missing_keys p = []" and "source p = Some src" and "src = ''bdfare'' \<or> src = ''all''"
    and "request p = Some rd"
  shows "call_bdfare = Some (TypeError bdfare_type_error) \<and>
         snd (combined_search E p pg sz) = [] \<and>
         (\<forall>r. fst (combined_search E p pg sz) \<noteq> Inr r) \<and>
         (src = ''bdfare'' \<or> (\<exists>fp. convert_bdfare_to_flyhub E rd = Inr fp) \<longrightarrow>
            fst (combined_search E p pg sz) =
              Inl (HTTPException 500 (''An unexpected error occurred: '' @ bdfare_type_error)))"
proof -
  from assms(1) obtain src' pos rd' where v: "source p = Some src'" "src' \<noteq> []"
      "pointOfSale p = Some pos" "pos \<noteq> []" "request p = Some rd'" "truthy rd'"
    unfolding missing_keys_Nil by blast
  with assms have [simp]: "src' = src" "rd' = rd" by simp_all
  have c: "collect_raw_results E p pg sz = dispatch E src pos rd pg sz"
    using collect_raw_results_valid [OF v] by simp
  show ?thesis
  proof (cases "src = ''bdfare''")
    case True
    then show ?thesis
      by (simp add: combined_search_def c dispatch_bdfare call_bdfare_raises)
  next
    case False
    with assms(3) have "src = ''all''" by simp
    then show ?thesis
      by (auto simp: combined_search_def c dispatch_all call_bdfare_raises split: sum.splits)
  qed
qed

theorem bdfare_call_raises_type_error_witness:
  "missing_keys (example_payload ''all'') = [] \<and>
   combined_search example_env (example_payload ''all'') 1 50 =
     (Inl (HTTPException 500 (''An unexpected error occurred: '' @ bdfare_type_error)), [])"
proof -
  have m: "missing_keys (example_payload ''all'') = []"
    by (simp add: missing_keys_def example_payload_def example_request_def)
  have s: "source (example_payload ''all'') = Some ''all''"
    and r: "request (example_payload ''all'') = Some example_request"
    by (simp_all add: example_payload_def)
  have c: "convert_bdfare_to_flyhub example_env example_request = Inr example_request"
    by (simp add: example_env_def)
  from bdfare_call_raises_type_error [OF m s _ r, of example_env 1 50] c m
  show ?thesis by (simp add: prod_eq_iff)
qed

subsection \<open>An unknown source\<close>

text \<open>
  C5, as stated, does not hold: a payload whose \<open>source\<close> is \<^verbatim>\<open>"xyz"\<close> and whose
  \<open>pointOfSale\<close> is absent is answered with status 422, but the detail names the missing
  key and does not mention the source.
\<close>

theorem invalid_source_detail_counterexample:
  "combined_search example_env
     \<lparr> source = Some ''xyz'', pointOfSale = None, request = Some example_request \<rparr> 1 50
     = (Inl (HTTPException 422 (missing_key_detail ''pointOfSale'')), []) \<and>
   \<not> mentions ''Invalid source specified: xyz'' (missing_key_detail ''pointOfSale'')"
  by (simp add: combined_search_def collect_raw_results_def missing_key_detail_def)

text \<open>
  C5, amended. A payload whose \<open>source\<close> is none of \<^verbatim>\<open>"bdfare"\<close>, \<^verbatim>\<open>"flyhub"\<close>,
  \<^verbatim>\<open>"all"\<close> is rejected with status 422 before anything is dispatched. When none of the
  three keys is missing or empty, the detail is
  \<^verbatim>\<open>Validation Error: Invalid source specified: \<close> followed by the source; otherwise it
  names the first missing key.
\<close>

theorem invalid_source_rejected:
  assumes "source p = Some src" and "src \<notin> {''bdfare'', ''flyhub'', ''all''}"
  shows "combined_search E p pg sz =
           (Inl (HTTPException 422
                  (case missing_keys p of
                     [] \<Rightarrow> ''Validation Error: Invalid source specified: '' @ src
                   | k # ks \<Rightarrow> missing_key_detail k)), [])"
proof (cases "missing_keys p")
  case Nil
  then obtain src' pos rd where v: "source p = Some src'" "src' \<noteq> []"
      "pointOfSale p = Some pos" "pos \<noteq> []" "request p = Some rd" "truthy rd"
    unfolding missing_keys_Nil by blast
  with assms have [simp]: "src' = src" by simp
  have "collect_raw_results E p pg sz = dispatch E src pos rd pg sz"
    using collect_raw_results_valid [OF v] by simp
  with assms(2) Nil show ?thesis
    by (simp add: combined_search_def dispatch_invalid)
next
  case (Cons k ks)
  have "combined_search E p pg sz = (Inl (HTTPException 422 (missing_key_detail k)), [])"
    using Cons assms
    by (auto simp: missing_keys_def missing_key_detail_def combined_search_def
        collect_raw_results_def split: option.splits if_splits)
  with Cons show ?thesis by simp
qed

theorem invalid_source_rejected_witness:
  "source (example_payload ''xyz'') = Some ''xyz'' \<and>
   ''xyz'' \<notin> {''bdfare'', ''flyhub'', ''all''} \<and>
   combined_search example_env (example_payload ''xyz'') 1 50 =
     (Inl (HTTPException 422 ''Validation Error: Invalid source specified: xyz''), []) \<and>
   mentions ''Invalid source specified: xyz'' ''Validation Error: Invalid source specified: xyz''"
proof -
  have s: "source (example_payload ''xyz'') = Some ''xyz''"
    by (simp add: example_payload_def)
  have n: "''xyz'' \<notin> {''bdfare'', ''flyhub'', ''all''}" by simp
  have m: "missing_keys (example_payload ''xyz'') = []"
    by (simp add: missing_keys_def example_payload_def example_request_def)
  from invalid_source_rejected [OF s n, of example_env 1 50] s n m
  show ?thesis by simp
qed

subsection \<open>Pagination\<close>

lemma py_slice_nonneg:
  assumes "0 \<le> start" and "0 \<le> sz"
  shows "py_slice xs start (start + sz) = take (nat sz) (drop (nat start) xs)"
proof -
  let ?n = "int (length xs)"
  let ?ys = "drop (nat start) xs"
  consider (beyond) "?n \<le> start" | (whole) "start < ?n" "start + sz \<le> ?n"
    | (partial) "start < ?n" "?n < start + sz"
    by linarith
  then show ?thesis
  proof cases
    case beyond
    with assms show ?thesis
      by (simp add: py_slice_def clamp_index_def Let_def min_def)
  next
    case whole
    with assms show ?thesis
      by (simp add: py_slice_def clamp_index_def Let_def min_def)
  next
    case partial
    with assms have len: "length ?ys = nat (?n - start)" by simp
    from partial assms have "length ?ys \<le> nat sz" unfolding len by linarith
    then have "take (nat sz) ?ys = ?ys" by simp
    moreover have "take (nat (?n - start)) ?ys = ?ys" using len by simp
    ultimately show ?thesis
      using partial assms by (simp add: py_slice_def clamp_index_def Let_def min_def)
  qed
qed

text \<open>
  C1. When the request reaches the merge step, that is, the suppliers' raw results are
  collected and the formatter returns, with \<open>M\<close> the merged sequence under
  \<^verbatim>\<open>"Flights"\<close>, then for \<open>page \<ge> 1\<close> and \<open>size \<ge> 1\<close> the result has
  \<open>total_flights = length M\<close> and \<open>flights = M[(page-1)*size : (page-1)*size + size]\<close>,
  clamped to \<open>M\<close>; so \<open>flights\<close> has at most \<open>size\<close> elements, and is empty when
  \<open>(page-1)*size \<ge> length M\<close>.
\<close>

theorem pagination_slice:
  assumes "collect_raw_results E p pg sz = (Inr raw, tr)"
    and "format_flight_data_with_ids E raw = Inr formatted"
    and "M = (case formatted ''Flights'' of None \<Rightarrow> [] | Some xs \<Rightarrow> xs)"
    and "1 \<le> pg" and "1 \<le> sz"
  shows "combined_search E p pg sz =
           (Inr \<lparr> res_page = pg, res_size = sz, total_flights = int (length M),
                  flights = take (nat sz) (drop (nat ((pg - 1) * sz)) M) \<rparr>, tr) \<and>
         int (length (take (nat sz) (drop (nat ((pg - 1) * sz)) M))) \<le> sz \<and>
         (int (length M) \<le> (pg - 1) * sz \<longrightarrow> take (nat sz) (drop (nat ((pg - 1) * sz)) M) = [])"
proof -
  from assms(4,5) have nn: "0 \<le> (pg - 1) * sz" "0 \<le> sz" by simp_all
  have sl: "py_slice M ((pg - 1) * sz) ((pg - 1) * sz + sz) = take (nat sz) (drop (nat ((pg - 1) * sz)) M)"
    by (rule py_slice_nonneg [OF nn])
  have cs: "combined_search E p pg sz = (Inr (paginate formatted pg sz), tr)"
    using assms(1,2) by (simp add: combined_search_def)
  have pg: "paginate formatted pg sz =
      \<lparr> res_page = pg, res_size = sz, total_flights = int (length M),
        flights = take (nat sz) (drop (nat ((pg - 1) * sz)) M) \<rparr>"
    using sl assms(3) by (simp add: paginate_def Let_def)
  have le: "int (length (take (nat sz) (drop (nat ((pg - 1) * sz)) M))) \<le> sz"
    using nn by simp
  have emp: "int (length M) \<le> (pg - 1) * sz \<longrightarrow> take (nat sz) (drop (nat ((pg - 1) * sz)) M) = []"
    using nn by auto
  show ?thesis
    unfolding cs pg using le emp by simp
qed

theorem pagination_slice_witness:
  "combined_search example_env (example_payload ''flyhub'') 2 2 =
     (Inr \<lparr> res_page = 2, res_size = 2, total_flights = 5, flights = [JStr ''fh-3'', JStr ''fh-4''] \<rparr>,
      [FlyhubFetch example_request 2 2])"
proof -
  have c: "collect_raw_results example_env (example_payload ''flyhub'') 2 2 =
             (Inr [(''flyhub'', Some (JArr example_offers))], [FlyhubFetch example_request 2 2])"
    by (simp add: collect_raw_results_def example_payload_def example_request_def dispatch_flyhub
        example_env_def)
  have f: "format_flight_data_with_ids example_env [(''flyhub'', Some (JArr example_offers))] =
             Inr [''Flights'' \<mapsto> example_offers]"
    by (simp add: example_env_def example_flights_def offers_of_def)
  have m: "example_offers = (case [''Flights'' \<mapsto> example_offers] ''Flights'' of None \<Rightarrow> [] | Some xs \<Rightarrow> xs)"
    by simp
  have pg: "(1::int) \<le> 2" by simp
  from pagination_slice [OF c f m pg pg]
  show ?thesis by (simp add: example_offers_def)
qed

subsection \<open>Page and size below one\<close>

text \<open>
  C7, as stated, does not hold: \<^verbatim>\<open>combined_search\<close> has no check of \<open>page\<close> or
  \<open>size\<close>. With \<open>page = 0\<close> the FlyHub request is dispatched with that page and an
  (empty) result page is returned, not a 422.
\<close>

theorem page_zero_counterexample:
  "combined_search example_env (example_payload ''flyhub'') 0 50 =
     (Inr \<lparr> res_page = 0, res_size = 50, total_flights = 5, flights = [] \<rparr>,
      [FlyhubFetch example_request 0 50])"
  by (simp add: combined_search_def collect_raw_results_def example_payload_def
      example_request_def dispatch_flyhub example_env_def example_flights_def offers_of_def
      paginate_def py_slice_def clamp_index_def example_offers_def)

text \<open>
  C7, amended, for the source \<^verbatim>\<open>"flyhub"\<close>. \<^verbatim>\<open>combined_search\<close> does not validate
  \<open>page\<close> or \<open>size\<close>: whatever their values (also below 1), when the keys of the
  payload pass their validation, the request adapter returns, the FlyHub client takes the
  keywords \<^verbatim>\<open>page\<close> and \<^verbatim>\<open>size\<close> and answers, and the formatter answers, then the
  FlyHub request has been dispatched with these values and a result is returned, not a 422,
  with \<open>total_flights = length M\<close> and \<open>flights\<close> the Python slice
  \<open>M[(page-1)*size : (page-1)*size + size]\<close>, in which a negative bound counts from the
  end of \<open>M\<close>; it is empty for \<open>page = 0\<close> and for \<open>size = 0\<close>. (For the sources
  \<^verbatim>\<open>"bdfare"\<close> and \<^verbatim>\<open>"all"\<close> nothing is said here: there the call of the BDFare
  client fails first, whatever the page and size.)
\<close>

theorem page_size_not_validated:
  assumes "missing_keys p = []" and "source p = Some ''flyhub''" and "request p = Some rd"
    and "convert_bdfare_to_flyhub E rd = Inr fp" and "flyhub_bind E = None"
    and "flyhub_client E fp pg sz = Inr v"
    and "format_flight_data_with_ids E [(''flyhub'', Some v)] = Inr formatted"
    and "M = (case formatted ''Flights'' of None \<Rightarrow> [] | Some xs \<Rightarrow> xs)"
  shows "combined_search E p pg sz =
           (Inr \<lparr> res_page = pg, res_size = sz, total_flights = int (length M),
                  flights = py_slice M ((pg - 1) * sz) ((pg - 1) * sz + sz) \<rparr>,
            [FlyhubFetch fp pg sz]) \<and>
         (pg = 0 \<or> sz = 0 \<longrightarrow> py_slice M ((pg - 1) * sz) ((pg - 1) * sz + sz) = [])"
proof -
  from assms(1) obtain src' pos rd' where v: "source p = Some src'" "src' \<noteq> []"
      "pointOfSale p = Some pos" "pos \<noteq> []" "request p = Some rd'" "truthy rd'"
    unfolding missing_keys_Nil by blast
  with assms have [simp]: "src' = ''flyhub''" "rd' = rd" by simp_all
  have c: "collect_raw_results E p pg sz = (Inr [(''flyhub'', Some v)], [FlyhubFetch fp pg sz])"
    using collect_raw_results_valid [OF v] assms(4-6) by (simp add: dispatch_flyhub)
  have r: "combined_search E p pg sz = (Inr (paginate formatted pg sz), [FlyhubFetch fp pg sz])"
    using c assms(7) by (simp add: combined_search_def)
  have e: "pg = 0 \<or> sz = 0 \<longrightarrow> py_slice M ((pg - 1) * sz) ((pg - 1) * sz + sz) = []"
    by (auto simp: py_slice_def clamp_index_def Let_def)
  show ?thesis
    unfolding r using e assms(8) by (simp add: paginate_def Let_def)
qed

theorem page_size_not_validated_witness:
  "combined_search example_env (example_payload ''flyhub'') (- 1) 2 =
     (Inr \<lparr> res_page = - 1, res_size = 2, total_flights = 5,
            flights = [JStr ''fh-2'', JStr ''fh-3''] \<rparr>,
      [FlyhubFetch example_request (- 1) 2])"
proof -
  have m: "missing_keys (example_payload ''flyhub'') = []"
    by (simp add: missing_keys_def example_payload_def example_request_def)
  have s: "source (example_payload ''flyhub'') = Some ''flyhub''"
    and r: "request (example_payload ''flyhub'') = Some example_request"
    by (simp_all add: example_payload_def)
  have c: "convert_bdfare_to_flyhub example_env example_request = Inr example_request"
    and b: "flyhub_bind example_env = None"
    and f: "flyhub_client example_env example_request (- 1) 2 = Inr (JArr example_offers)"
    and g: "format_flight_data_with_ids example_env [(''flyhub'', Some (JArr example_offers))] =
             Inr [''Flights'' \<mapsto> example_offers]"
    by (simp_all add: example_env_def example_flights_def offers_of_def)
  have M: "example_offers = (case [''Flights'' \<mapsto> example_offers] ''Flights'' of None \<Rightarrow> [] | Some xs \<Rightarrow> xs)"
    by simp
  have sl: "py_slice example_offers ((- 1 - 1) * 2) ((- 1 - 1) * 2 + 2) = [JStr ''fh-2'', JStr ''fh-3'']"
    by (simp add: py_slice_def clamp_index_def example_offers_def)
  from page_size_not_validated [OF m s r c b f g M] sl
  show ?thesis by (simp add: example_offers_def)
qed

subsection \<open>Failing suppliers\<close>

text \<open>
  C3, as stated, does not hold: there is no \<^verbatim>\<open>AllSuppliersFailedError\<close>. When the only
  targeted supplier, FlyHub, fails with an \<^verbatim>\<open>HTTPException\<close> of status 404, the request
  fails with that very exception, whose status is neither 502 nor 500.
\<close>

theorem all_suppliers_failed_counterexample:
  "combined_search (failing_flyhub_env (HTTPException 404 ''Not Found''))
     (example_payload ''flyhub'') 1 50 =
     (Inl (HTTPException 404 ''Not Found''), [FlyhubFetch example_request 1 50]) \<and>
   \<not> spec_all_suppliers_failed (HTTPException 404 ''Not Found'')"
  by (simp add: combined_search_def collect_raw_results_def example_payload_def
      example_request_def dispatch_flyhub example_env_def failing_flyhub_env_def
      spec_all_suppliers_failed_def)

text \<open>
  C3, amended. When the request targets FlyHub alone and its client fails, no result is
  produced and the request fails with the \<^verbatim>\<open>HTTPException\<close> that the handlers of lines
  122 to 138 make of the supplier's exception: the supplier's own \<^verbatim>\<open>HTTPException\<close>
  unchanged, status 422 for a \<^verbatim>\<open>KeyError\<close> or \<^verbatim>\<open>ValueError\<close>, status 500 for any other.
\<close>

theorem supplier_failure_propagates:
  assumes "missing_keys p = []" and "source p = Some ''flyhub''" and "request p = Some rd"
    and "convert_bdfare_to_flyhub E rd = Inr fp" and "flyhub_bind E = None"
    and "flyhub_client E fp pg sz = Inl e"
  shows "combined_search E p pg sz = (Inl (to_http_exception e), [FlyhubFetch fp pg sz])"
proof -
  from assms(1) obtain src' pos rd' where v: "source p = Some src'" "src' \<noteq> []"
      "pointOfSale p = Some pos" "pos \<noteq> []" "request p = Some rd'" "truthy rd'"
    unfolding missing_keys_Nil by blast
  with assms have [simp]: "src' = ''flyhub''" "rd' = rd" by simp_all
  have "collect_raw_results E p pg sz = (Inl e, [FlyhubFetch fp pg sz])"
    using collect_raw_results_valid [OF v] assms(4-6) by (simp add: dispatch_flyhub)
  then show ?thesis by (simp add: combined_search_def)
qed

theorem supplier_failure_propagates_witness:
  "combined_search (failing_flyhub_env (ValueError ''Expecting value'')) (example_payload ''flyhub'') 1 50 =
     (Inl (HTTPException 422 ''Validation Error: Expecting value''), [FlyhubFetch example_request 1 50])"
proof -
  let ?E = "failing_flyhub_env (ValueError ''Expecting value'')"
  have m: "missing_keys (example_payload ''flyhub'') = []"
    by (simp add: missing_keys_def example_payload_def example_request_def)
  have s: "source (example_payload ''flyhub'') = Some ''flyhub''"
    and r: "request (example_payload ''flyhub'') = Some example_request"
    by (simp_all add: example_payload_def)
  have c: "convert_bdfare_to_flyhub ?E example_request = Inr example_request"
    and b: "flyhub_bind ?E = None"
    and f: "flyhub_client ?E example_request 1 50 = Inl (ValueError ''Expecting value'')"
    by (simp_all add: example_env_def failing_flyhub_env_def)
  from supplier_failure_propagates [OF m s r c b f]
  show ?thesis by simp
qed

text \<open>
  C2 on the code: with \<open>source\<close> \<^verbatim>\<open>"all"\<close>, a FlyHub client that would answer five
  offers and BDFare unreachable, the request is answered with HTTP 500 and nothing is
  dispatched, FlyHub included: the \<^verbatim>\<open>TypeError\<close> of line 76 is raised before
  \<^verbatim>\<open>asyncio.gather\<close> can contain anything.
\<close>

theorem partial_failure_aborts:
  "combined_search bdfare_down_env (example_payload ''all'') 1 50 =
     (Inl (HTTPException 500 (''An unexpected error occurred: '' @ bdfare_type_error)), [])"
  by (simp add: combined_search_def collect_raw_results_def example_payload_def
      example_request_def dispatch_all example_env_def bdfare_down_env_def)

section \<open>Outbound calls of the BDFare client and route\<close>

text \<open>
  C10, as stated, does not hold: when the httpx attempt of \<^verbatim>\<open>fetch_bdfare_flights\<close>
  fails, the same invocation makes a second outbound attempt through \<^verbatim>\<open>requests\<close>.
\<close>

theorem single_outbound_call_counterexample:
  "fetch_bdfare_flights bdfare_down_env example_request =
     (Inl (HTTPException 500 ''Network or request error during API call: connection refused''),
      [HttpxPost ''https://bdfare.test/AirShopping'' example_request,
       RequestsPost ''https://bdfare.test/AirShopping'' example_request])"
  by (simp add: fetch_bdfare_flights_def fallback_to_requests_def bdfare_down_env_def
      example_env_def Let_def)

text \<open>
  C10, amended. An invocation makes one outbound call when its first attempt succeeds,
  and at most two. \<^verbatim>\<open>fetch_bdfare_flights\<close> makes none when the request adapter raises,
  one (httpx) when that answers with status 200 and a JSON body, and otherwise two: httpx,
  then the fallback through \<^verbatim>\<open>requests\<close>. \<^verbatim>\<open>search_flights\<close> makes none when the
  configuration is missing, two (httpx, then curl) when httpx raised a
  \<^verbatim>\<open>RequestError\<close>, and otherwise one. No mechanism is tried twice.
\<close>

theorem outbound_calls_per_invocation:
  "snd (fetch_bdfare_flights E payload) =
     (case convert_to_bdfare_request E payload of
        Inl e \<Rightarrow> []
      | Inr tp \<Rightarrow>
          (let url = BDFARE_BASE_URL E @ ''/AirShopping''
           in if primary_succeeded (httpx_post E url tp)
              then [HttpxPost url tp]
              else [HttpxPost url tp, RequestsPost url tp])) \<and>
   snd (search_flights R body) =
     (case (ROUTE_BDFARE_BASE_URL R, ROUTE_BDFARE_API_KEY R) of
        (Some (b # bs), Some (k # ks)) \<Rightarrow>
          (let url = (b # bs) @ ''/AirShopping''
           in if is_request_error (route_httpx_post R url body)
              then [HttpxPost url body, CurlPost url body]
              else [HttpxPost url body])
      | _ \<Rightarrow> [])"
proof
  show "snd (fetch_bdfare_flights E payload) =
     (case convert_to_bdfare_request E payload of
        Inl e \<Rightarrow> []
      | Inr tp \<Rightarrow>
          (let url = BDFARE_BASE_URL E @ ''/AirShopping''
           in if primary_succeeded (httpx_post E url tp)
              then [HttpxPost url tp]
              else [HttpxPost url tp, RequestsPost url tp]))"
    by (simp add: fetch_bdfare_flights_def fallback_to_requests_def primary_succeeded_def Let_def
        split: sum.splits httpx_result.splits prod.splits)
  show "snd (search_flights R body) =
     (case (ROUTE_BDFARE_BASE_URL R, ROUTE_BDFARE_API_KEY R) of
        (Some (b # bs), Some (k # ks)) \<Rightarrow>
          (let url = (b # bs) @ ''/AirShopping''
           in if is_request_error (route_httpx_post R url body)
              then [HttpxPost url body, CurlPost url body]
              else [HttpxPost url body])
      | _ \<Rightarrow> [])"
    by (simp add: search_flights_def is_request_error_def Let_def
        split: option.splits list.splits httpx_result.splits)
qed

theorem outbound_calls_per_invocation_witness:
  "snd (fetch_bdfare_flights example_env example_request) =
     [HttpxPost ''https://bdfare.test/AirShopping'' example_request] \<and>
   snd (search_flights (example_route_env (HttpxRequestError ''timed out'')) example_request) =
     [HttpxPost ''https://bdfare.test/AirShopping'' example_request,
      CurlPost ''https://bdfare.test/AirShopping'' example_request] \<and>
   snd (search_flights (example_route_env (HttpxResponse 503 ''busy'' (Inl ''no JSON''))) example_request) =
     [HttpxPost ''https://bdfare.test/AirShopping'' example_request]"
proof -
  have a: "snd (fetch_bdfare_flights example_env example_request) =
     [HttpxPost ''https://bdfare.test/AirShopping'' example_request]"
    using outbound_calls_per_invocation [of example_env example_request]
    by (simp add: example_env_def primary_succeeded_def Let_def)
  have b: "snd (search_flights (example_route_env (HttpxRequestError ''timed out'')) example_request) =
     [HttpxPost ''https://bdfare.test/AirShopping'' example_request,
      CurlPost ''https://bdfare.test/AirShopping'' example_request]"
    using outbound_calls_per_invocation [of example_env example_request "example_route_env (HttpxRequestError ''timed out'')" example_request]
    by (simp add: example_route_env_def is_request_error_def Let_def)
  have c: "snd (search_flights (example_route_env (HttpxResponse 503 ''busy'' (Inl ''no JSON''))) example_request) =
     [HttpxPost ''https://bdfare.test/AirShopping'' example_request]"
    using outbound_calls_per_invocation [of example_env example_request "example_route_env (HttpxResponse 503 ''busy'' (Inl ''no JSON''))" example_request]
    by (simp add: example_route_env_def is_request_error_def Let_def)
  from a b c show ?thesis by simp
qed

section \<open>The FlyHub credential\<close>

text \<open>
  C8. In every FlyHub search call the cached credential counts as valid exactly when a
  token is present and the current time is strictly less than the stored expiry. When it
  is valid, no authenticate request is sent, the cache is left as it is and the search
  carries the cached token. When the token is absent (\<^verbatim>\<open>None\<close> or empty, what
  \<^verbatim>\<open>not\<close> takes for absent) or the time is not before the expiry, exactly one
  authenticate request is sent, before any search request, and a search that follows
  carries the token that the cache holds after the refresh.
\<close>

theorem refresh_iff_invalid:
  "(needs_refresh c now \<longleftrightarrow> \<not> truthy (token c) \<or> \<not> now < expires_at c) \<and>
   (\<not> needs_refresh c now \<longrightarrow>
      fetch_flyhub_flights F now now' c payload =
        (flyhub_search F c payload, c, [search_request F c payload])) \<and>
   (needs_refresh c now \<longrightarrow>
      (\<exists>r c'. fetch_flyhub_flights F now now' c payload = (r, c', [authenticate_request F]) \<or>
              fetch_flyhub_flights F now now' c payload =
                (r, c', [authenticate_request F, search_request F c' payload])))"
proof (intro conjI impI)
  show "needs_refresh c now \<longleftrightarrow> \<not> truthy (token c) \<or> \<not> now < expires_at c"
    by (auto simp: needs_refresh_def)
  show "fetch_flyhub_flights F now now' c payload =
        (flyhub_search F c payload, c, [search_request F c payload])"
    if "\<not> needs_refresh c now"
    using that by (simp add: fetch_flyhub_flights_def)
  show "\<exists>r c'. fetch_flyhub_flights F now now' c payload = (r, c', [authenticate_request F]) \<or>
              fetch_flyhub_flights F now now' c payload =
                (r, c', [authenticate_request F, search_request F c' payload])"
    if "needs_refresh c now"
    using that
    by (auto simp: fetch_flyhub_flights_def authenticate_flyhub_def Let_def
        split: prod.splits sum.splits)
qed

theorem refresh_iff_invalid_witness:
  "needs_refresh initial_cache 10 \<and>
   fetch_flyhub_flights example_flyhub_env 10 11 initial_cache example_request =
     (Inr (JArr []), \<lparr> token = JStr ''tok-1'', expires_at = 3611 \<rparr>,
      [authenticate_request example_flyhub_env,
       HttpxPostBearer ''https://flyhub.test/AirSearch'' (JStr ''tok-1'') example_request]) \<and>
   \<not> needs_refresh \<lparr> token = JStr ''tok-1'', expires_at = 3611 \<rparr> 3610 \<and>
   fetch_flyhub_flights example_flyhub_env 3610 3610.5 \<lparr> token = JStr ''tok-1'', expires_at = 3611 \<rparr>
       example_request =
     (Inr (JArr []), \<lparr> token = JStr ''tok-1'', expires_at = 3611 \<rparr>,
      [HttpxPostBearer ''https://flyhub.test/AirSearch'' (JStr ''tok-1'') example_request])"
proof -
  let ?c = "\<lparr> token = JStr ''tok-1'', expires_at = 3611 \<rparr>"
  have a: "needs_refresh initial_cache 10"
    by (simp add: needs_refresh_def initial_cache_def)
  have b: "\<not> needs_refresh ?c 3610"
    by (simp add: needs_refresh_def)
  have s: "flyhub_search example_flyhub_env ?c example_request = Inr (JArr [])"
    by (simp add: flyhub_search_def example_flyhub_env_def)
  have q: "search_request example_flyhub_env ?c example_request =
      HttpxPostBearer ''https://flyhub.test/AirSearch'' (JStr ''tok-1'') example_request"
    by (simp add: search_request_def example_flyhub_env_def fstr_def)
  have valid: "fetch_flyhub_flights example_flyhub_env 3610 3610.5 ?c example_request =
     (Inr (JArr []), ?c,
      [HttpxPostBearer ''https://flyhub.test/AirSearch'' (JStr ''tok-1'') example_request])"
    using refresh_iff_invalid [of ?c 3610 example_flyhub_env "3610.5" example_request] b s q
    by simp
  have invalid: "fetch_flyhub_flights example_flyhub_env 10 11 initial_cache example_request =
     (Inr (JArr []), ?c, [authenticate_request example_flyhub_env,
      HttpxPostBearer ''https://flyhub.test/AirSearch'' (JStr ''tok-1'') example_request])"
    using a s q
    by (simp add: fetch_flyhub_flights_def authenticate_flyhub_def authenticate_receive_def
        initial_cache_def example_flyhub_env_def example_float_add_def Let_def)
  from a b valid invalid show ?thesis by simp
qed

section \<open>Concurrent refreshes\<close>







end
